theory Spec2Isabelle
  imports Main
begin

section \<open>Paths\<close>

text \<open>
  The program handles \<^verbatim>\<open>pathlib.Path\<close> objects (pathlib of Python 3.11). A path is
  modelled in its resolved, absolute form on a POSIX system: the list of its segments
  below the filesystem root, so that \<open>[]\<close> is the root \<^verbatim>\<open>/\<close> and
  \<open>[''home'', ''proj'']\<close> is \<^verbatim>\<open>/home/proj\<close>. \<^verbatim>\<open>Path.resolve()\<close> is the identity on
  such paths (symbolic links are not modelled). In a string an ASCII character is one
  \<open>char\<close> below 128; text beyond ASCII is made of the other \<open>char\<close>s.
\<close>

type_synonym path = "string list"

text \<open>\<^verbatim>\<open>Path.parent\<close>: the parent of the root is the root itself.\<close>

definition path_parent :: "path \<Rightarrow> path" where
  "path_parent p = butlast p"

text \<open>\<^verbatim>\<open>Path.name\<close>: the last segment, the empty string for the root.\<close>

definition path_name :: "path \<Rightarrow> string" where
  "path_name p = (if p = [] then [] else last p)"

text \<open>
  \<^verbatim>\<open>str.rfind\<close> for one character: the greatest index at which it stands, \<open>None\<close> for
  Python's \<open>-1\<close>.
\<close>

fun rfind :: "char \<Rightarrow> string \<Rightarrow> nat option" where
  "rfind c [] = None"
| "rfind c (x # xs) =
     (case rfind c xs of
        Some i \<Rightarrow> Some (Suc i)
      | None \<Rightarrow> if x = c then Some 0 else None)"

text \<open>
  \<^verbatim>\<open>Path.suffix\<close> (pathlib up to Python 3.13):
  \<^verbatim>\<open>i = name.rfind('.'); return name[i:] if 0 < i < len(name) - 1 else ''\<close>.
  A leading dot starts no suffix, and neither does a trailing one.
\<close>

definition path_suffix :: "path \<Rightarrow> string" where
  "path_suffix p =
     (let name = path_name p in
      case rfind (CHR ''.'') name of
        None \<Rightarrow> []
      | Some i \<Rightarrow> if 0 < i \<and> Suc i < length name then drop i name else [])"

text \<open>\<^verbatim>\<open>'/'.join(parts)\<close>, and \<^verbatim>\<open>str(path)\<close> of an absolute and of a relative path.\<close>

fun join_parts :: "string list \<Rightarrow> string" where
  "join_parts [] = []"
| "join_parts [s] = s"
| "join_parts (s # t # ts) = s @ ''/'' @ join_parts (t # ts)"

definition path_str :: "path \<Rightarrow> string" where
  "path_str p = ''/'' @ join_parts p"

definition rel_str :: "string list \<Rightarrow> string" where
  "rel_str r = (if r = [] then ''.'' else join_parts r)"

section \<open>Errors\<close>

text \<open>
  Every exception the program can meet is a value; the string is what \<^verbatim>\<open>str(e)\<close>
  gives. All four are subclasses of \<^verbatim>\<open>Exception\<close>.
\<close>

datatype error =
  OSError string | UnicodeDecodeError string | UnicodeEncodeError string | ValueError string

fun error_str :: "error \<Rightarrow> string" where
  "error_str (OSError m) = m"
| "error_str (UnicodeDecodeError m) = m"
| "error_str (UnicodeEncodeError m) = m"
| "error_str (ValueError m) = m"

text \<open>
  \<^verbatim>\<open>Path.relative_to(base)\<close>: the segments below \<open>base\<close>, a \<^verbatim>\<open>ValueError\<close> when
  \<open>base\<close> is not a prefix of the path.
\<close>

definition relative_to :: "path \<Rightarrow> path \<Rightarrow> error + string list" where
  "relative_to p base =
     (if take (length base) p = base then Inr (drop (length base) p)
      else Inl (ValueError (path_str p @ '' is not in the subpath of '' @ path_str base)))"

text \<open>
  \<^verbatim>\<open>Path.with_suffix(suffix)\<close>: a path with an empty name raises; a name with no suffix
  gets the new suffix appended; otherwise the old suffix is cut off and the new one put
  in its place.
\<close>

definition with_suffix :: "path \<Rightarrow> string \<Rightarrow> error + path" where
  "with_suffix p suffix =
     (let name = path_name p in
      if name = [] then Inl (ValueError (path_str p @ '' has an empty name''))
      else
        let old_suffix = path_suffix p in
        if old_suffix = [] then Inr (butlast p @ [name @ suffix])
        else Inr (butlast p @ [take (length name - length old_suffix) name @ suffix]))"

section \<open>The standard library\<close>

text \<open>
  What the program takes from Python's standard library and this development does not
  define is a parameter of the model, and the general theorems hold for every value of
  it:
  \<^item> \<open>lib_fnmatch\<close>: \<^verbatim>\<open>fnmatch.fnmatch(name, pattern)\<close>, a total test on two strings;
  \<^item> \<open>lib_lower\<close>: \<^verbatim>\<open>str.lower\<close> on a string that holds text beyond ASCII (the
    Unicode case tables);
  \<^item> \<open>lib_strip\<close>: \<^verbatim>\<open>str.strip\<close> on a string that holds text beyond ASCII (the
    Unicode white space);
  \<^item> \<open>lib_readback\<close>: the text that reading the output file gives while its handle is
    still open, after the given calls of \<^verbatim>\<open>write\<close>: the part of the text that the
    buffers of the handle have passed on to the file.
\<close>

record library =
  lib_fnmatch :: "string \<Rightarrow> string \<Rightarrow> bool"
  lib_lower :: "string \<Rightarrow> string"
  lib_strip :: "string \<Rightarrow> string"
  lib_readback :: "string list \<Rightarrow> string"

definition is_ascii :: "char \<Rightarrow> bool" where
  "is_ascii c = ((of_char c :: nat) < 128)"

text \<open>\<^verbatim>\<open>str.lower\<close>: on ASCII text the letters A to Z change, and nothing else.\<close>

definition lower_char :: "char \<Rightarrow> char" where
  "lower_char c =
     (let n = (of_char c :: nat) in
      if 65 \<le> n \<and> n \<le> 90 then char_of (n + 32) else c)"

definition lower :: "library \<Rightarrow> string \<Rightarrow> string" where
  "lower lib s = (if list_all is_ascii s then map lower_char s else lib_lower lib s)"

text \<open>
  \<^verbatim>\<open>str.strip()\<close>: on ASCII text the white space of ASCII is cut off at both ends
  (tab to carriage return, the four separators from 0x1C, and the space).
\<close>

definition is_space :: "char \<Rightarrow> bool" where
  "is_space c =
     (let n = (of_char c :: nat) in (9 \<le> n \<and> n \<le> 13) \<or> (28 \<le> n \<and> n \<le> 32))"

definition strip :: "library \<Rightarrow> string \<Rightarrow> string" where
  "strip lib s =
     (if list_all is_ascii s then rev (dropWhile is_space (rev (dropWhile is_space s)))
      else lib_strip lib s)"

text \<open>
  \<open>wildcard_match\<close> is \<^verbatim>\<open>fnmatch.fnmatch\<close> on the patterns made of \<^verbatim>\<open>*\<close> (any run of
  characters), \<^verbatim>\<open>?\<close> (any one character) and literal characters; it serves to run
  the model on concrete inputs.
\<close>

fun wildcard_match :: "string \<Rightarrow> string \<Rightarrow> bool" where
  "wildcard_match [] [] = True"
| "wildcard_match (c # cs) [] = False"
| "wildcard_match [] (p # ps) = (p = CHR ''*'' \<and> wildcard_match [] ps)"
| "wildcard_match (c # cs) (p # ps) =
     (if p = CHR ''*'' then wildcard_match (c # cs) ps \<or> wildcard_match cs (p # ps)
      else if p = CHR ''?'' then wildcard_match cs ps
      else p = c \<and> wildcard_match cs ps)"

section \<open>The filesystem\<close>

datatype kind = RegularFile | Directory | OtherEntry

text \<open>
  The state of the filesystem, as far as the program observes it:
  \<^item> \<open>fs_kind\<close>: what stands at a path, \<open>None\<close> when nothing does;
  \<^item> \<open>fs_stat_error\<close>: the error that \<^verbatim>\<open>os.stat\<close> raises for the path, if it is not
    one that pathlib takes for "nothing there" (ENOENT, ENOTDIR, EBADF, ELOOP): for
    instance the \<^verbatim>\<open>PermissionError\<close> for an entry of a directory that can be listed
    but not searched;
  \<^item> \<open>fs_name_error\<close>: the \<^verbatim>\<open>UnicodeEncodeError\<close> raised when the path is written as
    text to a UTF-8 handle, for a path with a name that is not valid UTF-8;
  \<^item> \<open>fs_text\<close>: a file's bytes decoded as UTF-8 with undecodable bytes dropped
    (\<^verbatim>\<open>errors="ignore"\<close>);
  \<^item> \<open>fs_read_error\<close>: the error the operating system raises when the file is opened
    for reading (a permission or I/O error), if any;
  \<^item> \<open>fs_decode_error\<close>: the \<^verbatim>\<open>UnicodeDecodeError\<close> of a strict UTF-8 decoding of the
    file, if its bytes are not valid UTF-8;
  \<^item> \<open>fs_write_error\<close>: the error raised when the path is opened for writing, if any;
  \<^item> \<open>fs_listing\<close>: the entries in the order in which a traversal meets them.
\<close>

record filesystem =
  fs_kind :: "path \<Rightarrow> kind option"
  fs_stat_error :: "path \<Rightarrow> error option"
  fs_name_error :: "path \<Rightarrow> error option"
  fs_text :: "path \<Rightarrow> string"
  fs_read_error :: "path \<Rightarrow> error option"
  fs_decode_error :: "path \<Rightarrow> error option"
  fs_write_error :: "path \<Rightarrow> error option"
  fs_listing :: "path list"

text \<open>
  \<^verbatim>\<open>Path.stat()\<close> as \<^verbatim>\<open>exists\<close>, \<^verbatim>\<open>is_file\<close> and \<^verbatim>\<open>is_dir\<close> use it: they catch the
  errors that mean "nothing there" and answer \<^verbatim>\<open>False\<close>; every other error leaves
  them.
\<close>

definition stat :: "filesystem \<Rightarrow> path \<Rightarrow> error + kind option" where
  "stat fs p =
     (case fs_stat_error fs p of
        Some e \<Rightarrow> Inl e
      | None \<Rightarrow> Inr (fs_kind fs p))"

definition path_exists :: "filesystem \<Rightarrow> path \<Rightarrow> error + bool" where
  "path_exists fs p =
     (case stat fs p of
        Inl e \<Rightarrow> Inl e
      | Inr k \<Rightarrow> Inr (k \<noteq> None))"

definition is_file :: "filesystem \<Rightarrow> path \<Rightarrow> error + bool" where
  "is_file fs p =
     (case stat fs p of
        Inl e \<Rightarrow> Inl e
      | Inr k \<Rightarrow> Inr (k = Some RegularFile))"

definition is_dir :: "filesystem \<Rightarrow> path \<Rightarrow> error + bool" where
  "is_dir fs p =
     (case stat fs p of
        Inl e \<Rightarrow> Inl e
      | Inr k \<Rightarrow> Inr (k = Some Directory))"

text \<open>
  A file opened in text mode with the default \<^verbatim>\<open>newline=None\<close> is read with \<^verbatim>\<open>\r\n\<close>
  and a lone \<^verbatim>\<open>\r\<close> translated to \<^verbatim>\<open>\n\<close>.
\<close>

fun universal_newlines :: "string \<Rightarrow> string" where
  "universal_newlines [] = []"
| "universal_newlines [c] = (if c = CHR 0x0D then [CHR 0x0A] else [c])"
| "universal_newlines (c # d # cs) =
     (if c = CHR 0x0D \<and> d = CHR 0x0A then CHR 0x0A # universal_newlines cs
      else if c = CHR 0x0D then CHR 0x0A # universal_newlines (d # cs)
      else c # universal_newlines (d # cs))"

text \<open>Opening a path for reading: what is not a readable file raises.\<close>

definition open_r :: "filesystem \<Rightarrow> path \<Rightarrow> error option" where
  "open_r fs p =
     (case stat fs p of
        Inl e \<Rightarrow> Some e
      | Inr None \<Rightarrow> Some (OSError (''No such file or directory: '' @ path_str p))
      | Inr (Some Directory) \<Rightarrow> Some (OSError (''Is a directory: '' @ path_str p))
      | Inr (Some _) \<Rightarrow> fs_read_error fs p)"

text \<open>\<^verbatim>\<open>Path.read_text(encoding="utf-8", errors="ignore")\<close>.\<close>

definition read_text :: "filesystem \<Rightarrow> path \<Rightarrow> error + string" where
  "read_text fs p =
     (case open_r fs p of
        Some e \<Rightarrow> Inl e
      | None \<Rightarrow> Inr (universal_newlines (fs_text fs p)))"

text \<open>Reading a whole file opened with \<^verbatim>\<open>open("r", encoding="utf-8")\<close>: decoding is strict.\<close>

definition read_strict :: "filesystem \<Rightarrow> path \<Rightarrow> error + string" where
  "read_strict fs p =
     (case open_r fs p of
        Some e \<Rightarrow> Inl e
      | None \<Rightarrow>
          (case fs_decode_error fs p of
             Some e \<Rightarrow> Inl e
           | None \<Rightarrow> Inr (universal_newlines (fs_text fs p))))"

text \<open>
  \<^verbatim>\<open>Path.open("w", encoding="utf-8")\<close>: fails where \<^verbatim>\<open>stat\<close> fails, on a directory,
  under a parent that is no directory, or when the system refuses; otherwise the file
  exists afterwards and is empty. A file that is new comes last in the traversal order.
\<close>

definition open_w :: "filesystem \<Rightarrow> path \<Rightarrow> error + filesystem" where
  "open_w fs p =
     (case fs_stat_error fs p of
        Some e \<Rightarrow> Inl e
      | None \<Rightarrow>
          if fs_kind fs p = Some Directory
          then Inl (OSError (''Is a directory: '' @ path_str p))
          else if fs_kind fs (path_parent p) \<noteq> Some Directory
          then Inl (OSError (''No such file or directory: '' @ path_str p))
          else
            (case fs_write_error fs p of
               Some e \<Rightarrow> Inl e
             | None \<Rightarrow>
                 Inr (fs\<lparr>fs_kind := (fs_kind fs)(p := Some RegularFile),
                         fs_text := (fs_text fs)(p := []),
                         fs_decode_error := (fs_decode_error fs)(p := None),
                         fs_listing :=
                           (if p \<in> set (fs_listing fs) then fs_listing fs
                            else fs_listing fs @ [p])\<rparr>)))"

text \<open>
  The state of the output handle is the list of the strings written through it. When the
  handle is closed, at the end of the \<^verbatim>\<open>with\<close> block, all of them are in the file.
\<close>

definition close_w :: "filesystem \<Rightarrow> path \<Rightarrow> string list \<Rightarrow> filesystem" where
  "close_w fs p writes = fs\<lparr>fs_text := (fs_text fs)(p := concat writes)\<rparr>"

text \<open>
  \<^verbatim>\<open>Path.rglob("*")\<close>: every entry strictly below the directory, in traversal order. An
  entry of a directory that can be listed is met whether or not it can be tested.
\<close>

definition rglob :: "filesystem \<Rightarrow> path \<Rightarrow> path list" where
  "rglob fs d =
     filter (\<lambda>p. length d < length p \<and> take (length d) p = d \<and> fs_kind fs p \<noteq> None)
       (fs_listing fs)"

section \<open>The ignore-rule locator\<close>

text \<open>
  \<^verbatim>\<open>
  def find_gitignore(start_path):
      current = Path(start_path).resolve()
      while current != current.parent:
          gitignore_path = current / ".gitignore"
          if gitignore_path.exists():
              return gitignore_path
          current = current.parent
      return None
  \<close>
  An error of \<^verbatim>\<open>exists\<close> leaves the function.
\<close>

function find_gitignore :: "filesystem \<Rightarrow> path \<Rightarrow> error + path option" where
  "find_gitignore fs current =
     (if current \<noteq> path_parent current then
        (let gitignore_path = current @ [''.gitignore''] in
         case path_exists fs gitignore_path of
           Inl e \<Rightarrow> Inl e
         | Inr found \<Rightarrow>
             if found then Inr (Some gitignore_path)
             else find_gitignore fs (path_parent current))
      else Inr None)"
  by pat_completeness auto
termination
proof (relation "measure (\<lambda>(fs, current). length current)")
  show "wf (measure (\<lambda>(fs, current). length current))"
    by simp
next
  fix fs :: filesystem and current :: path
  assume "current \<noteq> path_parent current"
  then have "current \<noteq> []"
    by (auto simp: path_parent_def)
  then show "((fs, path_parent current), (fs, current)) \<in> measure (\<lambda>(fs, current). length current)"
    by (simp add: path_parent_def)
qed

declare find_gitignore.simps [simp del]

section \<open>The ignore-rule parser\<close>

text \<open>Iterating over a text file yields its lines, each with its terminator.\<close>

fun file_lines :: "string \<Rightarrow> string list" where
  "file_lines [] = []"
| "file_lines (c # cs) =
     (if c = CHR 0x0A then [c] # file_lines cs
      else (case file_lines cs of
              [] \<Rightarrow> [[c]]
            | l # ls \<Rightarrow> (c # l) # ls))"

text \<open>
  \<^verbatim>\<open>
  def parse_gitignore(gitignore_path):
      patterns = []
      with gitignore_path.open("r", encoding="utf-8") as f:
          for line in f:
              line = line.strip()
              if line and not line.startswith("#"):
                  patterns.append(line)
      return patterns
  \<close>
  Opening or decoding may raise; nothing in the function catches it.
\<close>

fun parse_lines :: "library \<Rightarrow> string list \<Rightarrow> string list \<Rightarrow> string list" where
  "parse_lines lib [] patterns = patterns"
| "parse_lines lib (line # rest) patterns =
     (let line = strip lib line in
      if line \<noteq> [] \<and> \<not> (take 1 line = ''#'') then parse_lines lib rest (patterns @ [line])
      else parse_lines lib rest patterns)"

definition parse_gitignore :: "library \<Rightarrow> filesystem \<Rightarrow> path \<Rightarrow> error + string list" where
  "parse_gitignore lib fs gitignore_path =
     (case read_strict fs gitignore_path of
        Inl e \<Rightarrow> Inl e
      | Inr f \<Rightarrow> Inr (parse_lines lib (file_lines f) []))"

section \<open>The ignore-rule matcher\<close>

text \<open>
  \<^verbatim>\<open>
  def is_ignored(file_path, ignore_patterns, base_dir):
      relative_path = str(file_path.relative_to(base_dir))
      for pattern in ignore_patterns:
          if fnmatch.fnmatch(relative_path, pattern) or fnmatch.fnmatch(
              file_path.name, pattern,
          ):
              return True
      return False
  \<close>
  \<open>fnm\<close> is \<^verbatim>\<open>fnmatch.fnmatch\<close>; \<open>match_loop\<close> is the \<^verbatim>\<open>for\<close> loop.
\<close>

fun match_loop :: "(string \<Rightarrow> string \<Rightarrow> bool) \<Rightarrow> string \<Rightarrow> string \<Rightarrow> string list \<Rightarrow> bool" where
  "match_loop fnm relative_path name [] = False"
| "match_loop fnm relative_path name (pattern # rest) =
     (if fnm relative_path pattern \<or> fnm name pattern then True
      else match_loop fnm relative_path name rest)"

definition is_ignored ::
  "(string \<Rightarrow> string \<Rightarrow> bool) \<Rightarrow> path \<Rightarrow> string list \<Rightarrow> path \<Rightarrow> error + bool" where
  "is_ignored fnm file_path ignore_patterns base_dir =
     (case relative_to file_path base_dir of
        Inl e \<Rightarrow> Inl e
      | Inr r \<Rightarrow> Inr (match_loop fnm (rel_str r) (path_name file_path) ignore_patterns))"

text \<open>
  The same loop, returning the patterns it has tested when it leaves: the trace that
  shows where the evaluation stops.
\<close>

fun match_trace :: "(string \<Rightarrow> string \<Rightarrow> bool) \<Rightarrow> string \<Rightarrow> string \<Rightarrow> string list \<Rightarrow> string list" where
  "match_trace fnm relative_path name [] = []"
| "match_trace fnm relative_path name (pattern # rest) =
     (if fnm relative_path pattern \<or> fnm name pattern then [pattern]
      else pattern # match_trace fnm relative_path name rest)"

section \<open>The extension table\<close>

definition comment_syntax :: "(string \<times> string) list" where
  "comment_syntax =
    [(''.py'', ''#''), (''.r'', ''#''), (''.jl'', ''#''), (''.sh'', ''#''),
     (''.bash'', ''#''), (''.ps1'', ''#''), (''.bat'', ''REM''), (''.pl'', ''#''),
     (''.awk'', ''#''), (''.html'', ''-->''), (''.htm'', ''-->''), (''.xml'', ''-->''),
     (''.xhtml'', ''-->''), (''.js'', ''//''), (''.jsx'', ''//''), (''.ts'', ''//''),
     (''.tsx'', ''//''), (''.css'', ''*/''), (''.scss'', ''//''), (''.less'', ''//''),
     (''.java'', ''//''), (''.c'', ''//''), (''.h'', ''//''), (''.cpp'', ''//''),
     (''.cc'', ''//''), (''.cxx'', ''//''), (''.c++'', ''//''), (''.cs'', ''//''),
     (''.go'', ''//''), (''.swift'', ''//''), (''.kt'', ''//''), (''.kts'', ''//''),
     (''.dart'', ''//''), (''.php'', ''//''), (''.rb'', ''#''), (''.lua'', ''--''),
     (''.scala'', ''//''), (''.groovy'', ''//''), (''.vbs'', [CHR 0x27]),
     (''.fs'', ''//''), (''.fsx'', ''//''), (''.hs'', ''--''),
     (''.ml'', [CHR 0x28, CHR 0x2A, CHR 0x20, CHR 0x2A, CHR 0x29]),
     (''.mli'', [CHR 0x28, CHR 0x2A, CHR 0x20, CHR 0x2A, CHR 0x29]),
     (''.clj'', '';''), (''.cljs'', '';''), (''.lisp'', '';''),
     (''.lsp'', '';''), (''.scm'', '';''), (''.rkt'', '';''), (''.erl'', ''%''),
     (''.ex'', ''#''), (''.exs'', ''#''), (''.json'', []), (''.yaml'', ''#''),
     (''.yml'', ''#''), (''.ini'', '';''), (''.toml'', ''#''), (''.cfg'', ''#''),
     (''.conf'', ''#''), (''.properties'', ''#''), (''.sql'', ''--''),
     (''.md'', ''-->''), (''.markdown'', ''-->''), (''.rst'', ''..''), (''.tex'', ''%''),
     (''.latex'', ''%''), (''.make'', ''#''), (''.mk'', ''#''), (''Makefile'', ''#''),
     (''.dockerfile'', ''#''), (''Dockerfile'', ''#''), (''.env'', ''#''),
     (''.gitattributes'', ''#''), (''.gitignore'', ''#''), (''.editorconfig'', ''#'')]"

text \<open>\<^verbatim>\<open>key in comment_syntax\<close> and \<^verbatim>\<open>comment_syntax.get(key, default)\<close>.\<close>

definition has_key :: "string \<Rightarrow> bool" where
  "has_key k = (map_of comment_syntax k \<noteq> None)"

definition get_syntax :: "string \<Rightarrow> string \<Rightarrow> string" where
  "get_syntax k dflt =
     (case map_of comment_syntax k of
        Some v \<Rightarrow> v
      | None \<Rightarrow> dflt)"

section \<open>The concatenation driver\<close>

definition newline :: string where
  "newline = [CHR 0x0A]"

text \<open>
  The header line of a file (the \<^verbatim>\<open>if ext in [".html", ".css", ".xml", ".md"]\<close>
  statement):
  \<^verbatim>\<open>
  if ext in [".html", ".css", ".xml", ".md"]:
      outfile.write(f"{start_comment} File: {file_path} {end_comment}\n")
  else:
      outfile.write(f"{start_comment} File: {file_path} {start_comment}\n")
  \<close>
\<close>

definition header_line :: "string \<Rightarrow> string \<Rightarrow> string \<Rightarrow> path \<Rightarrow> string" where
  "header_line ext start_comment end_comment file_path =
     (if ext \<in> set [''.html'', ''.css'', ''.xml'', ''.md'']
      then start_comment @ '' File: '' @ path_str file_path @ '' '' @ end_comment @ newline
      else start_comment @ '' File: '' @ path_str file_path @ '' '' @ start_comment @ newline)"

text \<open>
  The \<^verbatim>\<open>try\<close> statement: the content and a blank line, or the line that records the
  error; \<^verbatim>\<open>except Exception\<close> catches every error of the model.
\<close>

text \<open>
  \<^verbatim>\<open>file_path.read_text(encoding="utf-8", errors="ignore")\<close> inside the walk, while the
  output handle is open with the strings \<open>writes\<close> written: the output file holds what
  the buffers have passed on, every other file its own text.
\<close>

definition read_in_walk ::
  "library \<Rightarrow> filesystem \<Rightarrow> path \<Rightarrow> string list \<Rightarrow> path \<Rightarrow> error + string" where
  "read_in_walk lib fs output_path writes file_path =
     (if file_path = output_path then
        (case open_r fs file_path of
           Some e \<Rightarrow> Inl e
         | None \<Rightarrow> Inr (lib_readback lib writes))
      else read_text fs file_path)"

text \<open>
  The \<^verbatim>\<open>try\<close> statement, entered with the strings \<open>writes\<close> written: the strings it
  writes, which are the content and a blank line, or the line that records the error.
  \<^verbatim>\<open>
  try:
      content = file_path.read_text(encoding="utf-8", errors="ignore")
      outfile.write(content)
      outfile.write("\n\n")
  except Exception as e:
      outfile.write(
          f"{start_comment} Could not read file: {file_path} - Error: {e} {end_comment}\n\n",
      )
  \<close>
  Text that was decoded can be written, and so can the line of the \<^verbatim>\<open>except\<close> branch
  once the header line, which holds the same path, has been written.
\<close>

definition try_block ::
  "library \<Rightarrow> filesystem \<Rightarrow> path \<Rightarrow> string list \<Rightarrow> string \<Rightarrow> string \<Rightarrow> path \<Rightarrow> string list" where
  "try_block lib fs output_path writes start_comment end_comment file_path =
     (case read_in_walk lib fs output_path writes file_path of
        Inr content \<Rightarrow> [content, newline @ newline]
      | Inl e \<Rightarrow>
          [start_comment @ '' Could not read file: '' @ path_str file_path @ '' - Error: ''
             @ error_str e @ '' '' @ end_comment @ newline @ newline])"

text \<open>
  One pass through the body of the \<^verbatim>\<open>for\<close> loop, entered with the strings \<open>writes\<close>
  written: the exception that leaves it, if any, and the strings written after it.
  \<^verbatim>\<open>file_path.is_file()\<close>, \<^verbatim>\<open>is_ignored\<close> and the write of the header line stand
  outside the \<^verbatim>\<open>try\<close> statement, so their errors leave the loop.
\<close>

definition process_file ::
  "library \<Rightarrow> filesystem \<Rightarrow> string list \<Rightarrow> path \<Rightarrow> path \<Rightarrow> string list \<Rightarrow> path
     \<Rightarrow> error option \<times> string list" where
  "process_file lib fs ignore_patterns input_path output_path writes file_path =
     (case is_file fs file_path of
        Inl e \<Rightarrow> (Some e, writes)
      | Inr regular \<Rightarrow>
          if \<not> regular then (None, writes)
          else
            (case is_ignored (lib_fnmatch lib) file_path ignore_patterns input_path of
               Inl e \<Rightarrow> (Some e, writes)
             | Inr ignored \<Rightarrow>
                 if ignored then (None, writes)
                 else
                   (let ext = lower lib (path_suffix file_path);
                        start_comment = get_syntax ext ''#'';
                        end_comment = []
                    in if \<not> has_key ext \<and> \<not> has_key (path_name file_path)
                       then (None, writes)
                       else
                         (case fs_name_error fs file_path of
                            Some e \<Rightarrow> (Some e, writes)
                          | None \<Rightarrow>
                              (let header = header_line ext start_comment end_comment file_path
                               in (None,
                                   writes @ [header]
                                   @ try_block lib fs output_path (writes @ [header])
                                       start_comment end_comment file_path))))))"

text \<open>
  The \<^verbatim>\<open>for\<close> loop over the entries, with the strings written so far; an exception
  ends it.
\<close>

fun walk ::
  "library \<Rightarrow> filesystem \<Rightarrow> string list \<Rightarrow> path \<Rightarrow> path \<Rightarrow> path list \<Rightarrow> string list
     \<Rightarrow> error option \<times> string list" where
  "walk lib fs ignore_patterns input_path output_path [] writes = (None, writes)"
| "walk lib fs ignore_patterns input_path output_path (file_path # rest) writes =
     (case process_file lib fs ignore_patterns input_path output_path writes file_path of
        (Some e, writes') \<Rightarrow> (Some e, writes')
      | (None, writes') \<Rightarrow> walk lib fs ignore_patterns input_path output_path rest writes')"

text \<open>
  \<^verbatim>\<open>
  gitignore_path = find_gitignore(input_path)
  ignore_patterns = parse_gitignore(gitignore_path) if gitignore_path else []
  \<close>
\<close>

definition load_patterns :: "library \<Rightarrow> filesystem \<Rightarrow> path \<Rightarrow> error + string list" where
  "load_patterns lib fs input_path =
     (case find_gitignore fs input_path of
        Inl e \<Rightarrow> Inl e
      | Inr (Some gitignore_path) \<Rightarrow> parse_gitignore lib fs gitignore_path
      | Inr None \<Rightarrow> Inr [])"

text \<open>
  \<^verbatim>\<open>concatenate_project(input_dir, output_file)\<close>: the exception that leaves it, if
  any, and the filesystem it leaves behind. The rules are loaded first; then the
  output is opened (created or truncated), the tree is walked, and the handle is closed
  on every way out of the \<^verbatim>\<open>with\<close> block.
\<close>

definition concatenate_project ::
  "library \<Rightarrow> filesystem \<Rightarrow> path \<Rightarrow> path \<Rightarrow> error option \<times> filesystem" where
  "concatenate_project lib fs input_dir output_file =
     (let input_path = input_dir; output_path = output_file in
      case load_patterns lib fs input_path of
        Inl e \<Rightarrow> (Some e, fs)
      | Inr ignore_patterns \<Rightarrow>
          (case open_w fs output_path of
             Inl e \<Rightarrow> (Some e, fs)
           | Inr fs1 \<Rightarrow>
               (case walk lib fs1 ignore_patterns input_path output_path
                       (rglob fs1 input_path) [] of
                  (raised, writes) \<Rightarrow> (raised, close_w fs1 output_path writes))))"

section \<open>The command line\<close>

definition quoted :: "string \<Rightarrow> string" where
  "quoted s = [CHR 0x27] @ s @ [CHR 0x27]"

text \<open>
  \<^verbatim>\<open>main()\<close> on the two positional arguments: the exception that leaves it, the lines
  it prints, and the filesystem it leaves behind. Standard output is taken to accept
  every line (its error handler is set by the environment, not by the program).
\<close>

definition finish ::
  "library \<Rightarrow> filesystem \<Rightarrow> path \<Rightarrow> path \<Rightarrow> string list
     \<Rightarrow> error option \<times> string list \<times> filesystem" where
  "finish lib fs input_path output_path printed =
     (case concatenate_project lib fs input_path output_path of
        (Some e, fs') \<Rightarrow> (Some e, printed, fs')
      | (None, fs') \<Rightarrow>
          (None,
           printed @ [''All files from '' @ quoted (path_str input_path)
                      @ '' concatenated to '' @ quoted (path_str output_path) @ ''.''],
           fs'))"

definition main ::
  "library \<Rightarrow> filesystem \<Rightarrow> path \<Rightarrow> path \<Rightarrow> error option \<times> string list \<times> filesystem" where
  "main lib fs input_directory output_filename =
     (let input_path = input_directory; output_path = output_filename in
      case is_dir fs input_path of
        Inl e \<Rightarrow> (Some e, [], fs)
      | Inr dir \<Rightarrow>
          if \<not> dir
          then (None,
                [''Error: Input directory '' @ quoted (path_str input_path) @ '' not found.''],
                fs)
          else if path_suffix output_path \<noteq> ''.txt''
          then
            (let printed =
                   [''Warning: Output filename does not end with '' @ quoted ''.txt''
                    @ ''. Appending '' @ quoted ''.txt'' @ ''.'']
             in case with_suffix output_path ''.txt'' of
                  Inl e \<Rightarrow> (Some e, printed, fs)
                | Inr output_path \<Rightarrow> finish lib fs input_path output_path printed)
          else finish lib fs input_path output_path [])"

section \<open>Blocks and sample trees\<close>


text \<open>
  A library for runs on ASCII text whose output stays in the buffers of the handle
  until it is closed (as it does up to 8192 bytes).
\<close>

definition plain_library :: library where
  "plain_library =
     \<lparr>lib_fnmatch = wildcard_match,
      lib_lower = (\<lambda>s. s),
      lib_strip = (\<lambda>s. s),
      lib_readback = (\<lambda>writes. [])\<rparr>"

text \<open>
  A filesystem given by its entries in traversal order (path, kind, text) and by the
  files that cannot be read; every entry can be tested, every name and every file is
  valid UTF-8, and every path can be written.
\<close>

definition filesystem_of ::
  "(path \<times> kind \<times> string) list \<Rightarrow> (path \<times> error) list \<Rightarrow> filesystem" where
  "filesystem_of entries unreadable =
     \<lparr>fs_kind = map_of (map (\<lambda>(p, k, t). (p, k)) entries),
      fs_stat_error = (\<lambda>p. None),
      fs_name_error = (\<lambda>p. None),
      fs_text = (\<lambda>p. case map_of (map (\<lambda>(p, k, t). (p, t)) entries) p of
                         Some t \<Rightarrow> t
                       | None \<Rightarrow> []),
      fs_read_error = map_of unreadable,
      fs_decode_error = (\<lambda>p. None),
      fs_write_error = (\<lambda>p. None),
      fs_listing = map fst entries\<rparr>"

text \<open>
  \<^verbatim>\<open>/proj\<close> with a rules file that ignores \<^verbatim>\<open>*.log\<close>, sources, a compiled file, a log,
  a file that cannot be read, a page in a subdirectory, and the output of an earlier
  run.
\<close>

definition sample_tree :: filesystem where
  "sample_tree = filesystem_of
     [([], Directory, []),
      ([''proj''], Directory, []),
      ([''proj'', ''.gitignore''], RegularFile, ''# logs'' @ newline @ ''*.log'' @ newline),
      ([''proj'', ''a.py''], RegularFile, ''print(1)''),
      ([''proj'', ''a.pyc''], RegularFile, ''xx''),
      ([''proj'', ''app.log''], RegularFile, ''log''),
      ([''proj'', ''secret.py''], RegularFile, []),
      ([''proj'', ''web''], Directory, []),
      ([''proj'', ''web'', ''index.html''], RegularFile, ''<p>hi</p>''),
      ([''proj'', ''out.txt''], RegularFile, ''earlier output'')]
     [([''proj'', ''secret.py''], OSError ''Permission denied'')]"

text \<open>The same tree with a rules file whose bytes are not valid UTF-8.\<close>

definition broken_rules_tree :: filesystem where
  "broken_rules_tree =
     sample_tree\<lparr>fs_decode_error :=
       (\<lambda>p. if p = [''proj'', ''.gitignore'']
            then Some (UnicodeDecodeError ''invalid start byte'') else None)\<rparr>"

text \<open>\<^verbatim>\<open>/site\<close> with one page, and no rules file anywhere.\<close>

definition site_tree :: filesystem where
  "site_tree = filesystem_of
     [([], Directory, []),
      ([''site''], Directory, []),
      ([''site'', ''index.html''], RegularFile, ''<p>hi</p>'')]
     []"

text \<open>A rules file in the filesystem root, above \<^verbatim>\<open>/proj\<close>.\<close>

definition root_rules_tree :: filesystem where
  "root_rules_tree = filesystem_of
     [([], Directory, []),
      ([''.gitignore''], RegularFile, ''*.py'' @ newline),
      ([''proj''], Directory, []),
      ([''proj'', ''a.py''], RegularFile, ''print(1)'')]
     []"

text \<open>
  \<^verbatim>\<open>/proj\<close> with a directory \<^verbatim>\<open>locked\<close> that can be listed but not searched (mode
  444): its entry \<^verbatim>\<open>b.py\<close> is met by the walk, and \<^verbatim>\<open>stat\<close> on it raises.
\<close>

definition locked_tree :: filesystem where
  "locked_tree =
     (filesystem_of
        [([], Directory, []),
         ([''proj''], Directory, []),
         ([''proj'', ''a.py''], RegularFile, ''print(1)''),
         ([''proj'', ''locked''], Directory, []),
         ([''proj'', ''locked'', ''b.py''], RegularFile, ''print(2)''),
         ([''proj'', ''c.py''], RegularFile, ''print(3)'')]
        [])\<lparr>fs_stat_error :=
             (\<lambda>p. if p = [''proj'', ''locked'', ''b.py'']
                  then Some (OSError ''Permission denied'') else None)\<rparr>"

text \<open>
  \<^verbatim>\<open>/proj\<close> with a rules file that holds no pattern and a source file whose one line is
  \<^verbatim>\<open>*\<close>.
\<close>

definition star_tree :: filesystem where
  "star_tree = filesystem_of
     [([], Directory, []),
      ([''proj''], Directory, []),
      ([''proj'', ''.gitignore''], RegularFile, ''# none'' @ newline),
      ([''proj'', ''a.py''], RegularFile, ''*'')]
     []"

section \<open>The matcher decides by the set of patterns\<close>

lemma match_loop_iff:
  "match_loop fnm r n pats = (\<exists>p\<in>set pats. fnm r p \<or> fnm n p)"
  by (induction pats) auto

lemma match_trace_eq:
  "match_trace fnm r n pats =
     takeWhile (\<lambda>p. \<not> (fnm r p \<or> fnm n p)) pats
     @ take 1 (dropWhile (\<lambda>p. \<not> (fnm r p \<or> fnm n p)) pats)"
  by (induction pats) auto

lemma match_trace_decides:
  "match_loop fnm r n pats = (\<exists>p\<in>set (match_trace fnm r n pats). fnm r p \<or> fnm n p)"
  by (induction pats) auto

text \<open>
  Claim C6. For a file under the base directory the matcher does not fail, and it
  returns \<open>True\<close> exactly when some pattern of the RuleSet matches the base-relative
  path or the bare file name. The loop tests the patterns in order and leaves at the
  first one that matches: the patterns it tests are those before the first match, and
  that match, and the answer of the matcher is decided by the patterns tested.
\<close>

theorem is_ignored_matches:
  assumes "take (length base_dir) file_path = base_dir"
  shows "is_ignored fnm file_path ignore_patterns base_dir =
           Inr (\<exists>pattern\<in>set ignore_patterns.
                  fnm (rel_str (drop (length base_dir) file_path)) pattern
                  \<or> fnm (path_name file_path) pattern)
         \<and> match_trace fnm (rel_str (drop (length base_dir) file_path)) (path_name file_path)
             ignore_patterns =
           takeWhile (\<lambda>pattern. \<not> (fnm (rel_str (drop (length base_dir) file_path)) pattern
                                  \<or> fnm (path_name file_path) pattern)) ignore_patterns
           @ take 1 (dropWhile (\<lambda>pattern. \<not> (fnm (rel_str (drop (length base_dir) file_path)) pattern
                                  \<or> fnm (path_name file_path) pattern)) ignore_patterns)
         \<and> is_ignored fnm file_path ignore_patterns base_dir =
           Inr (\<exists>pattern\<in>set (match_trace fnm (rel_str (drop (length base_dir) file_path))
                                   (path_name file_path) ignore_patterns).
                  fnm (rel_str (drop (length base_dir) file_path)) pattern
                  \<or> fnm (path_name file_path) pattern)"
proof -
  have "is_ignored fnm file_path ignore_patterns base_dir =
          Inr (match_loop fnm (rel_str (drop (length base_dir) file_path)) (path_name file_path)
                 ignore_patterns)"
    using assms by (simp add: is_ignored_def relative_to_def)
  then show ?thesis
    using match_trace_decides [of fnm "rel_str (drop (length base_dir) file_path)"
        "path_name file_path" ignore_patterns]
    by (simp add: match_loop_iff match_trace_eq)
qed

theorem is_ignored_matches_witness:
  "is_ignored wildcard_match [''proj'', ''src'', ''app.log''] [''*.py'', ''*.log'', ''src/*''] [''proj'']
     = Inr True
   \<and> match_trace wildcard_match ''src/app.log'' ''app.log'' [''*.py'', ''*.log'', ''src/*'']
     = [''*.py'', ''*.log'']
   \<and> is_ignored wildcard_match [''proj'', ''src'', ''app.py''] [''*.log''] [''proj''] = Inr False"
proof -
  have under: "take (length [''proj'']) [''proj'', ''src'', ''app.log''] = [''proj'']"
    by simp
  have under': "take (length [''proj'']) [''proj'', ''src'', ''app.py''] = [''proj'']"
    by simp
  show ?thesis
    using is_ignored_matches [OF under, of wildcard_match "[''*.py'', ''*.log'', ''src/*'']"]
      is_ignored_matches [OF under', of wildcard_match "[''*.log'']"]
    by (simp add: rel_str_def path_name_def)
qed

text \<open>
  Claim C7. Two RuleSets with the same set of patterns give the same decision (and the
  same failure, for a file outside the base directory). A permutation of a RuleSet and
  a RuleSet in which patterns are repeated have the same set of patterns.
\<close>

theorem is_ignored_order_irrelevant:
  assumes "set ignore_patterns = set ignore_patterns'"
  shows "is_ignored fnm file_path ignore_patterns base_dir
           = is_ignored fnm file_path ignore_patterns' base_dir"
  using assms by (simp add: is_ignored_def match_loop_iff split: sum.splits)

theorem is_ignored_order_irrelevant_witness:
  "set [''*.log'', ''a.*''] = set [''a.*'', ''*.log'', ''a.*'']
   \<and> is_ignored wildcard_match [''proj'', ''app.log''] [''*.log'', ''a.*''] [''proj'']
     = is_ignored wildcard_match [''proj'', ''app.log''] [''a.*'', ''*.log'', ''a.*''] [''proj'']
   \<and> is_ignored wildcard_match [''proj'', ''app.log''] [''a.*'', ''*.log'', ''a.*''] [''proj'']
     = Inr True"
proof -
  have same: "set [''*.log'', ''a.*''] = set [''a.*'', ''*.log'', ''a.*'']"
    by auto
  have "is_ignored wildcard_match [''proj'', ''app.log''] [''a.*'', ''*.log'', ''a.*''] [''proj'']
     = Inr True"
    by (simp add: is_ignored_def relative_to_def rel_str_def path_name_def)
  with same is_ignored_order_irrelevant [OF same, of wildcard_match "[''proj'', ''app.log'']" "[''proj'']"]
  show ?thesis
    by simp
qed

section \<open>The files that get a block\<close>




lemma walk_append:
  "walk lib fs pats base out (xs @ ys) writes =
     (case walk lib fs pats base out xs writes of
        (None, writes') \<Rightarrow> walk lib fs pats base out ys writes'
      | (Some e, writes') \<Rightarrow> (Some e, writes'))"
  by (induction xs arbitrary: writes) (auto split: prod.splits option.splits)




section \<open>Files that cannot be read\<close>

text \<open>
  The \<^verbatim>\<open>try\<close> statement does what it is there for: when \<^verbatim>\<open>is_file()\<close> has answered
  and the header line is written, an error of the reading is recorded in the output and
  the loop goes on.
\<close>

lemma read_error_recorded:
  assumes "is_file fs file_path = Inr True"
    and "is_ignored (lib_fnmatch lib) file_path ignore_patterns input_path = Inr False"
    and "has_key (lower lib (path_suffix file_path)) \<or> has_key (path_name file_path)"
    and "fs_name_error fs file_path = None"
    and "read_in_walk lib fs output_path
           (writes @ [header_line (lower lib (path_suffix file_path))
                        (get_syntax (lower lib (path_suffix file_path)) ''#'') [] file_path])
           file_path = Inl e"
  shows "walk lib fs ignore_patterns input_path output_path (file_path # rest) writes =
           walk lib fs ignore_patterns input_path output_path rest
             (writes
              @ [header_line (lower lib (path_suffix file_path))
                   (get_syntax (lower lib (path_suffix file_path)) ''#'') [] file_path,
                 get_syntax (lower lib (path_suffix file_path)) ''#''
                 @ '' Could not read file: '' @ path_str file_path @ '' - Error: ''
                 @ error_str e @ '' '' @ newline @ newline])"
  using assms by (auto simp: process_file_def try_block_def Let_def)

text \<open>
  Claim C4. In \<open>locked_tree\<close> the file \<^verbatim>\<open>/proj/locked/b.py\<close> is a source file whose
  content cannot be read, since its directory cannot be searched. \<^verbatim>\<open>is_file()\<close>, which
  stands before the \<^verbatim>\<open>try\<close> statement, raises the \<^verbatim>\<open>PermissionError\<close>: the walk ends
  there with the exception, nothing is written for the file, and the file
  \<^verbatim>\<open>/proj/c.py\<close> after it is never processed.
\<close>

theorem locked_file_aborts:
  "rglob locked_tree [''proj'']
     = [[''proj'', ''a.py''], [''proj'', ''locked''], [''proj'', ''locked'', ''b.py''],
        [''proj'', ''c.py'']]
   \<and> is_file locked_tree [''proj'', ''locked'', ''b.py''] = Inl (OSError ''Permission denied'')
   \<and> process_file plain_library locked_tree [] [''proj''] [''out.txt''] []
        [''proj'', ''locked'', ''b.py'']
      = (Some (OSError ''Permission denied''), [])
   \<and> walk plain_library locked_tree [] [''proj''] [''out.txt'']
        [[''proj'', ''locked'', ''b.py''], [''proj'', ''c.py'']] []
      = (Some (OSError ''Permission denied''), [])
   \<and> fst (main plain_library locked_tree [''proj''] [''out.txt''])
      = Some (OSError ''Permission denied'')"
  by code_simp

section \<open>The output file is not part of the output\<close>

lemma has_key_iff: "has_key k = (k \<in> set (map fst comment_syntax))"
  by (simp add: has_key_def map_of_eq_None_iff)

lemma keys_not_txt: "list_all (\<lambda>k. drop (length k - 4) k \<noteq> ''.txt'') (map fst comment_syntax)"
  by code_simp

lemma has_key_not_txt: "has_key k \<Longrightarrow> drop (length k - 4) k \<noteq> ''.txt''"
  using keys_not_txt by (simp add: has_key_iff list_all_iff del: set_map)

lemma path_suffix_drop:
  assumes "path_suffix p = s" and "s \<noteq> []"
  shows "drop (length (path_name p) - length s) (path_name p) = s"
proof -
  from assms obtain i where i: "drop i (path_name p) = s" "Suc i < length (path_name p)"
    by (auto simp: path_suffix_def Let_def split: option.splits if_splits)
  then have "length s = length (path_name p) - i"
    by auto
  with i show ?thesis
    by simp
qed

lemma lower_txt: "lower lib ''.txt'' = ''.txt''"
  by (simp add: lower_def is_ascii_def lower_char_def)

lemma txt_not_key:
  assumes "path_suffix p = ''.txt''"
  shows "\<not> has_key (lower lib (path_suffix p))" and "\<not> has_key (path_name p)"
proof -
  have "\<not> has_key ''.txt''"
    by code_simp
  then show "\<not> has_key (lower lib (path_suffix p))"
    by (simp add: assms lower_txt)
  from path_suffix_drop [OF assms] have "drop (length (path_name p) - 4) (path_name p) = ''.txt''"
    by (simp add: numeral_eq_Suc)
  then show "\<not> has_key (path_name p)"
    using has_key_not_txt by blast
qed

lemma open_w_is_file: "open_w fs0 p = Inr fs \<Longrightarrow> is_file fs p = Inr True"
  by (auto simp: open_w_def is_file_def stat_def split: option.splits if_splits)

lemma rfind_absent: "c \<notin> set xs \<Longrightarrow> rfind c xs = None"
  by (induction xs) auto

lemma rfind_last: "c \<notin> set ys \<Longrightarrow> rfind c (xs @ c # ys) = Some (length xs)"
  by (induction xs) (auto simp: rfind_absent)

lemma suffix_of_stem_txt:
  assumes "stem \<noteq> []"
  shows "path_suffix (d @ [stem @ ''.txt'']) = ''.txt''"
proof -
  have "rfind (CHR ''.'') (stem @ CHR ''.'' # ''txt'') = Some (length stem)"
    by (rule rfind_last) simp
  with assms show ?thesis
    by (simp add: path_suffix_def path_name_def)
qed

lemma with_suffix_txt:
  assumes "with_suffix p ''.txt'' = Inr q"
  shows "path_suffix q = ''.txt''"
proof -
  from assms have name: "path_name p \<noteq> []"
    by (auto simp: with_suffix_def Let_def split: if_splits)
  show ?thesis
  proof (cases "path_suffix p = []")
    case True
    with assms name have "q = butlast p @ [path_name p @ ''.txt'']"
      by (simp add: with_suffix_def Let_def)
    with name show ?thesis
      by (simp add: suffix_of_stem_txt)
  next
    case False
    then obtain i where i: "0 < i" "Suc i < length (path_name p)"
      "path_suffix p = drop i (path_name p)"
      by (auto simp: path_suffix_def Let_def split: option.splits if_splits)
    then have stem: "take (length (path_name p) - length (path_suffix p)) (path_name p) \<noteq> []"
      by auto
    from assms name False
    have "q = butlast p @ [take (length (path_name p) - length (path_suffix p)) (path_name p) @ ''.txt'']"
      by (simp add: with_suffix_def Let_def)
    with stem show ?thesis
      by (simp add: suffix_of_stem_txt)
  qed
qed

text \<open>
  Claim C10. An output path with the suffix \<^verbatim>\<open>.txt\<close> has neither its extension nor
  its name among the keys of the table. In a state in which the output has been opened,
  the loop body therefore writes nothing for the output file when the walk meets it
  below the input directory, and raises nothing: the walk does what it would do if the
  output file were not in the tree. (\<open>with_suffix_txt\<close>: every output path the command
  line derives carries that suffix.)
\<close>

theorem output_not_in_output:
  assumes "path_suffix output_file = ''.txt''"
    and "take (length input_path) output_file = input_path"
    and "open_w fs0 output_file = Inr fs"
  shows "\<not> has_key (lower lib (path_suffix output_file)) \<and> \<not> has_key (path_name output_file)
         \<and> process_file lib fs ignore_patterns input_path output_file writes output_file
             = (None, writes)
         \<and> walk lib fs ignore_patterns input_path output_file (before @ output_file # after) writes
             = walk lib fs ignore_patterns input_path output_file (before @ after) writes"
proof -
  have keys: "\<not> has_key (lower lib (path_suffix output_file))" "\<not> has_key (path_name output_file)"
    using txt_not_key [OF assms(1)] by simp_all
  note regular = open_w_is_file [OF assms(3)]
  have skip: "process_file lib fs ignore_patterns input_path output_file w output_file
                = (None, w)" for w
    using keys regular assms(2)
    by (simp add: process_file_def is_ignored_def relative_to_def Let_def)
  have "walk lib fs ignore_patterns input_path output_file (output_file # after) w
          = walk lib fs ignore_patterns input_path output_file after w" for w
    by (simp add: skip)
  then have "walk lib fs ignore_patterns input_path output_file (before @ output_file # after) writes
             = walk lib fs ignore_patterns input_path output_file (before @ after) writes"
    by (simp only: walk_append)
  with keys skip show ?thesis
    by simp
qed

theorem output_not_in_output_witness:
  "path_suffix [''proj'', ''out.txt''] = ''.txt''
   \<and> (\<exists>fs. open_w sample_tree [''proj'', ''out.txt''] = Inr fs
        \<and> is_file fs [''proj'', ''out.txt''] = Inr True
        \<and> process_file plain_library fs [''*.log''] [''proj''] [''proj'', ''out.txt''] []
             [''proj'', ''out.txt''] = (None, [])
        \<and> walk plain_library fs [''*.log''] [''proj''] [''proj'', ''out.txt'']
             [[''proj'', ''a.py''], [''proj'', ''out.txt''], [''proj'', ''a.pyc'']] []
           = walk plain_library fs [''*.log''] [''proj''] [''proj'', ''out.txt'']
             [[''proj'', ''a.py''], [''proj'', ''a.pyc'']] [])"
proof -
  let ?out = "[''proj'', ''out.txt'']"
  let ?fs1 = "sample_tree\<lparr>fs_kind := (fs_kind sample_tree)(?out := Some RegularFile),
                     fs_text := (fs_text sample_tree)(?out := []),
                     fs_decode_error := (fs_decode_error sample_tree)(?out := None),
                     fs_listing := fs_listing sample_tree\<rparr>"
  have suffix: "path_suffix ?out = ''.txt''"
    by code_simp
  have under: "take (length [''proj'']) ?out = [''proj'']"
    by simp
  have opened: "open_w sample_tree ?out = Inr ?fs1"
    by (simp add: open_w_def sample_tree_def filesystem_of_def path_parent_def)
  have regular: "is_file ?fs1 ?out = Inr True"
    by (simp add: is_file_def stat_def sample_tree_def filesystem_of_def)
  show ?thesis
    using output_not_in_output [OF suffix under opened, of plain_library "[''*.log'']" "[]"
        "[[''proj'', ''a.py'']]" "[[''proj'', ''a.pyc'']]"]
      suffix opened regular
    by (intro conjI exI [of _ ?fs1]) (simp_all only: simp_thms append.simps)
qed

section \<open>Rules that cannot be read\<close>

text \<open>
  Claim C9. When the rules file is found and reading or decoding it raises \<open>e\<close>, the
  exception leaves \<open>concatenate_project\<close> with the filesystem as it was: the output is
  never opened, and a file standing at the output path keeps its content. The same
  holds for \<open>main\<close>, which the exception leaves as soon as the arguments are accepted.
\<close>

theorem rules_error_aborts:
  assumes "find_gitignore fs input_dir = Inr (Some gitignore_path)"
    and "parse_gitignore lib fs gitignore_path = Inl e"
  shows "concatenate_project lib fs input_dir output_file = (Some e, fs)
         \<and> snd (snd (main lib fs input_dir output_file)) = fs
         \<and> (is_dir fs input_dir = Inr True \<and> path_name output_file \<noteq> []
              \<longrightarrow> fst (main lib fs input_dir output_file) = Some e)"
proof -
  have run: "concatenate_project lib fs input_dir out = (Some e, fs)" for out
    using assms by (simp add: concatenate_project_def load_patterns_def)
  have fin: "finish lib fs input_dir out printed = (Some e, printed, fs)" for out printed
    by (simp add: finish_def run)
  have "snd (snd (main lib fs input_dir output_file)) = fs"
    by (simp add: main_def fin Let_def split: sum.splits)
  moreover have "fst (main lib fs input_dir output_file) = Some e"
    if "is_dir fs input_dir = Inr True" "path_name output_file \<noteq> []"
    using that by (simp add: main_def fin Let_def with_suffix_def split: sum.splits)
  ultimately show ?thesis
    using run by simp
qed

theorem rules_error_aborts_witness:
  "find_gitignore broken_rules_tree [''proj''] = Inr (Some [''proj'', ''.gitignore''])
   \<and> parse_gitignore plain_library broken_rules_tree [''proj'', ''.gitignore'']
       = Inl (UnicodeDecodeError ''invalid start byte'')
   \<and> concatenate_project plain_library broken_rules_tree [''proj''] [''proj'', ''out.txt'']
       = (Some (UnicodeDecodeError ''invalid start byte''), broken_rules_tree)
   \<and> fst (main plain_library broken_rules_tree [''proj''] [''proj'', ''out.txt''])
       = Some (UnicodeDecodeError ''invalid start byte'')
   \<and> fs_text (snd (snd (main plain_library broken_rules_tree [''proj''] [''proj'', ''out.txt''])))
         [''proj'', ''out.txt'']
       = ''earlier output''"
proof -
  have found: "find_gitignore broken_rules_tree [''proj''] = Inr (Some [''proj'', ''.gitignore''])"
    by code_simp
  have failed: "parse_gitignore plain_library broken_rules_tree [''proj'', ''.gitignore'']
       = Inl (UnicodeDecodeError ''invalid start byte'')"
    by code_simp
  have dir: "is_dir broken_rules_tree [''proj''] = Inr True \<and> path_name [''proj'', ''out.txt''] \<noteq> []"
    by code_simp
  have old: "fs_text broken_rules_tree [''proj'', ''out.txt''] = ''earlier output''"
    by code_simp
  show ?thesis
    using rules_error_aborts [OF found failed, of "[''proj'', ''out.txt'']"]
      found failed dir old
    by (simp only: simp_thms)
qed

section \<open>A second run\<close>

lemma take_parent:
  assumes "take (length d) (path_parent c) = d"
  shows "take (length d) c = d"
proof (cases "c = []")
  case True
  with assms show ?thesis
    by (simp add: path_parent_def)
next
  case False
  from assms have "length (take (length d) (butlast c)) = length d"
    by (simp add: path_parent_def)
  then have "length d \<le> length (butlast c)"
    by simp
  with False have "length d < length c"
    by (cases c rule: rev_cases) auto
  with assms show ?thesis
    by (simp add: path_parent_def take_butlast)
qed

lemma find_gitignore_above:
  "find_gitignore fs current = Inr (Some g)
     \<Longrightarrow> \<exists>d. take (length d) current = d \<and> g = d @ [''.gitignore'']"
proof (induction fs current rule: find_gitignore.induct)
  case (1 fs current)
  show ?case
  proof (cases "current \<noteq> path_parent current
                 \<and> path_exists fs (current @ [''.gitignore'']) = Inr False")
    case True
    with "1.prems" have "find_gitignore fs (path_parent current) = Inr (Some g)"
      by (subst (asm) find_gitignore.simps) (simp add: Let_def)
    with True "1.IH" [OF _ refl, of False]
    obtain d where "take (length d) (path_parent current) = d" "g = d @ [''.gitignore'']"
      by auto
    then show ?thesis
      using take_parent by blast
  next
    case False
    with "1.prems" have "g = current @ [''.gitignore'']"
      by (subst (asm) find_gitignore.simps)
        (auto simp: Let_def split: if_splits sum.splits)
    then show ?thesis
      by (intro exI [of _ current]) simp
  qed
qed

lemma find_gitignore_agree:
  assumes "\<forall>d. take (length d) current = d
             \<longrightarrow> path_exists fs' (d @ [''.gitignore'']) = path_exists fs (d @ [''.gitignore''])"
  shows "find_gitignore fs' current = find_gitignore fs current"
  using assms
proof (induction fs current rule: find_gitignore.induct)
  case (1 fs current)
  have here: "path_exists fs' (current @ [''.gitignore''])
                = path_exists fs (current @ [''.gitignore''])"
    using "1.prems" by simp
  show ?case
  proof (cases "current \<noteq> path_parent current
                 \<and> path_exists fs (current @ [''.gitignore'']) = Inr False")
    case True
    have "\<forall>d. take (length d) (path_parent current) = d
            \<longrightarrow> path_exists fs' (d @ [''.gitignore'']) = path_exists fs (d @ [''.gitignore''])"
      using "1.prems" take_parent by blast
    with True "1.IH" [OF _ refl, of False]
    have "find_gitignore fs' (path_parent current) = find_gitignore fs (path_parent current)"
      by simp
    with True here show ?thesis
      by (simp add: find_gitignore.simps [of _ current] Let_def)
  next
    case False
    with here show ?thesis
      by (auto simp: find_gitignore.simps [of _ current] Let_def split: sum.splits)
  qed
qed

lemma open_w_result:
  assumes "open_w fs out = Inr fs1"
  shows "fs1 = fs\<lparr>fs_kind := (fs_kind fs)(out := Some RegularFile),
                   fs_text := (fs_text fs)(out := []),
                   fs_decode_error := (fs_decode_error fs)(out := None),
                   fs_listing :=
                     (if out \<in> set (fs_listing fs) then fs_listing fs
                      else fs_listing fs @ [out])\<rparr>"
  using assms by (auto simp: open_w_def split: if_splits option.splits)

lemma open_w_again:
  assumes "open_w fs out = Inr fs1"
  shows "open_w (close_w fs1 out writes) out = Inr fs1"
proof -
  from assms have parent: "fs_kind fs (path_parent out) = Some Directory"
    and notdir: "fs_kind fs out \<noteq> Some Directory"
    and st: "fs_stat_error fs out = None"
    and wr: "fs_write_error fs out = None"
    by (auto simp: open_w_def split: if_splits option.splits)
  from parent notdir have ne: "path_parent out \<noteq> out"
    by auto
  show ?thesis
    using parent ne st wr by (simp add: open_w_result [OF assms] open_w_def close_w_def)
qed

lemma load_patterns_after:
  assumes "open_w fs out = Inr fs1"
    and "\<forall>d. take (length d) input_path = d \<longrightarrow> out \<noteq> d @ [''.gitignore'']"
  shows "load_patterns lib (close_w fs1 out writes) input_path = load_patterns lib fs input_path"
proof -
  let ?fs2 = "close_w fs1 out writes"
  note fs1 = open_w_result [OF assms(1)]
  have same_at: "fs_kind ?fs2 g = fs_kind fs g" "fs_stat_error ?fs2 g = fs_stat_error fs g"
      "fs_read_error ?fs2 g = fs_read_error fs g"
      "fs_decode_error ?fs2 g = fs_decode_error fs g" "fs_text ?fs2 g = fs_text fs g"
    if "g \<noteq> out" for g
    using that by (simp_all add: fs1 close_w_def)
  have "\<forall>d. take (length d) input_path = d
          \<longrightarrow> path_exists ?fs2 (d @ [''.gitignore'']) = path_exists fs (d @ [''.gitignore''])"
    using assms(2) same_at(1,2)
    by (auto simp: path_exists_def stat_def split: option.splits)
  then have same: "find_gitignore ?fs2 input_path = find_gitignore fs input_path"
    by (rule find_gitignore_agree)
  show ?thesis
  proof (cases "find_gitignore fs input_path")
    case (Inl e)
    with same show ?thesis
      by (simp add: load_patterns_def)
  next
    case (Inr found)
    show ?thesis
    proof (cases found)
      case None
      with same Inr show ?thesis
        by (simp add: load_patterns_def)
    next
      case (Some g)
      with Inr have "g \<noteq> out"
        using find_gitignore_above assms(2) by blast
      note at_g = same_at [OF this]
      have "read_strict ?fs2 g = read_strict fs g"
        by (simp add: read_strict_def open_r_def stat_def at_g
            split: option.splits kind.splits sum.splits)
      then have "parse_gitignore lib ?fs2 g = parse_gitignore lib fs g"
        by (simp add: parse_gitignore_def)
      with same Inr Some show ?thesis
        by (simp add: load_patterns_def)
    qed
  qed
qed

text \<open>
  Claim C8, as amended. The run is a function of the filesystem state, which holds the
  traversal order, and of its two arguments. A second run with the same arguments,
  started in the state the first run has left, ends in the same way and leaves the same
  state, the content of the output file included, when the output file is not a file
  \<^verbatim>\<open>.gitignore\<close> in the input directory or in one of its ancestors, where the run
  looks for its rules (an output path with the suffix \<^verbatim>\<open>.txt\<close> never is).
\<close>

theorem second_run_same:
  assumes "\<forall>d. take (length d) input_dir = d \<longrightarrow> output_file \<noteq> d @ [''.gitignore'']"
  shows "concatenate_project lib (snd (concatenate_project lib fs input_dir output_file))
           input_dir output_file
         = concatenate_project lib fs input_dir output_file"
proof (cases "load_patterns lib fs input_dir")
  case (Inl e)
  then show ?thesis
    by (simp add: concatenate_project_def)
next
  case pats: (Inr ignore_patterns)
  show ?thesis
  proof (cases "open_w fs output_file")
    case (Inl e)
    with pats show ?thesis
      by (simp add: concatenate_project_def)
  next
    case (Inr fs1)
    obtain raised writes where
      w: "walk lib fs1 ignore_patterns input_dir output_file (rglob fs1 input_dir) []
            = (raised, writes)"
      by (cases "walk lib fs1 ignore_patterns input_dir output_file (rglob fs1 input_dir) []")
    from pats Inr w have first: "concatenate_project lib fs input_dir output_file
        = (raised, close_w fs1 output_file writes)"
      by (simp add: concatenate_project_def)
    have "concatenate_project lib (close_w fs1 output_file writes) input_dir output_file
        = (raised, close_w fs1 output_file writes)"
      using pats w
      by (simp add: concatenate_project_def load_patterns_after [OF Inr assms]
          open_w_again [OF Inr])
    with first show ?thesis
      by simp
  qed
qed

theorem second_run_same_witness:
  "concatenate_project plain_library
        (snd (concatenate_project plain_library sample_tree [''proj''] [''proj'', ''out.txt'']))
        [''proj''] [''proj'', ''out.txt'']
      = concatenate_project plain_library sample_tree [''proj''] [''proj'', ''out.txt'']
   \<and> fs_text (snd (concatenate_project plain_library sample_tree [''proj''] [''proj'', ''out.txt'']))
        [''proj'', ''out.txt'']
      = ''# File: /proj/.gitignore #'' @ newline @ ''# logs'' @ newline @ ''*.log'' @ newline
        @ newline @ newline
        @ ''# File: /proj/a.py #'' @ newline @ ''print(1)'' @ newline @ newline
        @ ''# File: /proj/secret.py #'' @ newline
        @ ''# Could not read file: /proj/secret.py - Error: Permission denied '' @ newline @ newline
        @ ''--> File: /proj/web/index.html '' @ newline @ ''<p>hi</p>'' @ newline @ newline"
proof -
  have other: "\<forall>d. take (length d) [''proj''] = d
                 \<longrightarrow> [''proj'', ''out.txt''] \<noteq> d @ [''.gitignore'']"
  proof (intro allI impI notI)
    fix d :: path
    assume "[''proj'', ''out.txt''] = d @ [''.gitignore'']"
    then have "last [''proj'', ''out.txt''] = last (d @ [''.gitignore''])"
      by (rule arg_cong)
    then show False
      by simp
  qed
  have written: "fs_text (snd (concatenate_project plain_library sample_tree [''proj''] [''proj'', ''out.txt'']))
        [''proj'', ''out.txt'']
      = ''# File: /proj/.gitignore #'' @ newline @ ''# logs'' @ newline @ ''*.log'' @ newline
        @ newline @ newline
        @ ''# File: /proj/a.py #'' @ newline @ ''print(1)'' @ newline @ newline
        @ ''# File: /proj/secret.py #'' @ newline
        @ ''# Could not read file: /proj/secret.py - Error: Permission denied '' @ newline @ newline
        @ ''--> File: /proj/web/index.html '' @ newline @ ''<p>hi</p>'' @ newline @ newline"
    by code_simp
  show ?thesis
    using second_run_same [OF other, of plain_library sample_tree] written
    by (simp only: simp_thms)
qed

text \<open>
  Without the condition the claim fails. In \<open>star_tree\<close>, with the rules file itself as
  the output file, the first run reads no pattern and writes two blocks, one of them
  for the file whose one line is \<^verbatim>\<open>*\<close>; the second run reads that output as its rules,
  finds the pattern \<^verbatim>\<open>*\<close> in it, ignores every file, and leaves the output empty.
\<close>

theorem second_run_counterexample:
  "load_patterns plain_library star_tree [''proj''] = Inr []
   \<and> fs_text (snd (concatenate_project plain_library star_tree
                     [''proj''] [''proj'', ''.gitignore'']))
        [''proj'', ''.gitignore'']
      = ''# File: /proj/.gitignore #'' @ newline @ newline @ newline
        @ ''# File: /proj/a.py #'' @ newline @ ''*'' @ newline @ newline
   \<and> load_patterns plain_library
        (snd (concatenate_project plain_library star_tree [''proj''] [''proj'', ''.gitignore'']))
        [''proj'']
      = Inr [''*'']
   \<and> fs_text (snd (concatenate_project plain_library
                     (snd (concatenate_project plain_library star_tree
                             [''proj''] [''proj'', ''.gitignore'']))
                     [''proj''] [''proj'', ''.gitignore'']))
        [''proj'', ''.gitignore'']
      = []"
  by code_simp

section \<open>Runs on the sample trees\<close>

lemma find_gitignore_root: "find_gitignore fs [] = Inr None"
  by (simp add: find_gitignore.simps path_parent_def)

text \<open>
  Claim C2. On a tree with the page \<^verbatim>\<open>/site/index.html\<close> the header line written is
  \<^verbatim>\<open>--> File: /site/index.html \<close> followed by a line break: it opens with the marker
  that closes a markup comment and closes with nothing, since \<^verbatim>\<open>end_comment\<close> is
  always empty. A file \<^verbatim>\<open>index.htm\<close> takes the other branch and has the same marker
  on both sides.
\<close>

theorem html_header_evaluated:
  "fs_text (snd (concatenate_project plain_library site_tree [''site''] [''out.txt''])) [''out.txt'']
     = ''--> File: /site/index.html '' @ newline @ ''<p>hi</p>'' @ newline @ newline
   \<and> header_line ''.htm'' (get_syntax ''.htm'' ''#'') [] [''site'', ''index.htm'']
     = ''--> File: /site/index.htm -->'' @ newline"
  by code_simp

text \<open>
  Claim C3. With a rules file in the filesystem root and none in \<^verbatim>\<open>/proj\<close>, the
  search from \<^verbatim>\<open>/proj\<close> returns \<open>None\<close>, and so does the search from the root: the
  loop ends when it reaches the root, before probing it.
\<close>

theorem root_rules_not_found:
  "path_exists root_rules_tree [''.gitignore''] = Inr True
   \<and> find_gitignore root_rules_tree [''proj''] = Inr None
   \<and> find_gitignore root_rules_tree [] = Inr None"
  by code_simp

text \<open>
  Claim C5. For the output argument \<^verbatim>\<open>/proj/notes.md\<close> the program writes
  \<^verbatim>\<open>/proj/notes.txt\<close>: the suffix \<^verbatim>\<open>.md\<close> is replaced, and no file
  \<^verbatim>\<open>/proj/notes.md.txt\<close> is made. The name \<^verbatim>\<open>.txt\<close> ends in \<^verbatim>\<open>.txt\<close> but has no
  suffix, and becomes \<^verbatim>\<open>.txt.txt\<close>.
\<close>

theorem other_suffix_replaced:
  "with_suffix [''proj'', ''notes.md''] ''.txt'' = Inr [''proj'', ''notes.txt'']
   \<and> fs_kind (snd (snd (main plain_library sample_tree [''proj''] [''proj'', ''notes.md''])))
       [''proj'', ''notes.txt''] = Some RegularFile
   \<and> fs_kind (snd (snd (main plain_library sample_tree [''proj''] [''proj'', ''notes.md''])))
       [''proj'', ''notes.md.txt''] = None
   \<and> with_suffix [''proj'', ''.txt''] ''.txt'' = Inr [''proj'', ''.txt.txt'']"
  by code_simp

end
